theory Spec2Isabelle
  imports Main "HOL-Library.AList"
begin

section \<open>JavaScript string primitives used by the analyzers\<close>

text \<open>
  Strings are lists of characters (one \<^typ>\<open>char\<close> per code unit). The helpers below are
  the \<^verbatim>\<open>String.prototype\<close> methods the source calls.
\<close>

fun startsWith :: "string \<Rightarrow> string \<Rightarrow> bool" where
  "startsWith s [] = True"
| "startsWith [] (p # ps) = False"
| "startsWith (c # cs) (p # ps) = (c = p \<and> startsWith cs ps)"

definition endsWith :: "string \<Rightarrow> string \<Rightarrow> bool" where
  "endsWith s p = startsWith (rev s) (rev p)"

fun includes_str :: "string \<Rightarrow> string \<Rightarrow> bool" where
  "includes_str [] m = (m = [])"
| "includes_str (c # cs) m = (startsWith (c # cs) m \<or> includes_str cs m)"

text \<open>The error the \<^verbatim>\<open>RegExp\<close> constructor throws on a malformed pattern.\<close>

datatype error = SyntaxError

text \<open>Decimal rendering of a count, as a template literal does.\<close>

fun showNat :: "nat \<Rightarrow> string" where
  "showNat n =
     (if n < 10 then [char_of (48 + n)]
      else showNat (n div 10) @ [char_of (48 + n mod 10)])"

section \<open>Business-logic risk analyzer\<close>

subsection \<open>Risk assessment\<close>

record BusinessSignals =
  apiCalls :: nat
  useStateCount :: nat
  useEffectCount :: nat
  fileUploads :: bool
  authFlows :: bool
  formHandling :: bool

record Ceilings =
  maxApiCalls :: int
  maxStateHooks :: int
  maxEffects :: int

record RiskThresholds =
  safe :: Ceilings
  careful :: Ceilings

datatype RiskLevel = Safe | Careful | PageLevel

record Complexity =
  riskLevel :: RiskLevel
  complexity_score :: int
  detectedSignals :: "string list"

definition plural :: "nat \<Rightarrow> string" where
  "plural n = (if n > 1 then ''s'' else '''')"

text \<open>
  The eight \<^verbatim>\<open>if\<close> statements of \<^verbatim>\<open>assessRisk\<close> that accumulate the score and the
  signal descriptions, in source order. The state is the pair (signals so far, score so far).
\<close>

definition countRiskFactors :: "BusinessSignals \<Rightarrow> nat \<Rightarrow> nat \<Rightarrow> string list \<times> int" where
  "countRiskFactors signals nativeHtmlCount fileLines =
    (let st0 = ([], 0 :: int);
         st1 = (if apiCalls signals > 0
                then (fst st0 @ [showNat (apiCalls signals) @ '' API call'' @ plural (apiCalls signals)],
                      snd st0 + int (apiCalls signals) * 15)
                else st0);
         st2 = (if useStateCount signals > 0
                then (fst st1 @ [showNat (useStateCount signals) @ '' useState hook'' @ plural (useStateCount signals)],
                      snd st1 + int (useStateCount signals) * 5)
                else st1);
         st3 = (if useEffectCount signals > 0
                then (fst st2 @ [showNat (useEffectCount signals) @ '' useEffect hook'' @ plural (useEffectCount signals)],
                      snd st2 + int (useEffectCount signals) * 10)
                else st2);
         st4 = (if fileUploads signals then (fst st3 @ [''File uploads''], snd st3 + 25) else st3);
         st5 = (if authFlows signals then (fst st4 @ [''Auth flows''], snd st4 + 30) else st4);
         st6 = (if formHandling signals then (fst st5 @ [''Form handling''], snd st5 + 10) else st5);
         st7 = (if nativeHtmlCount > 0
                then (fst st6 @ [showNat nativeHtmlCount @ '' native HTML element'' @ plural nativeHtmlCount],
                      snd st6 + int nativeHtmlCount * 2)
                else st6);
         st8 = (if fileLines > 300
                then (fst st7 @ [''Large file ('' @ showNat fileLines @ '' lines)''], snd st7 + 10)
                else st7)
     in st8)"

definition assessRisk :: "BusinessSignals \<Rightarrow> nat \<Rightarrow> nat \<Rightarrow> RiskThresholds \<Rightarrow> Complexity" where
  "assessRisk signals nativeHtmlCount fileLines thresholds =
    (let (detected, score) = countRiskFactors signals nativeHtmlCount fileLines;
         level =
           (if int (apiCalls signals) > maxApiCalls (careful thresholds) \<or>
               int (useStateCount signals) > maxStateHooks (careful thresholds) \<or>
               int (useEffectCount signals) > maxEffects (careful thresholds) \<or>
               fileUploads signals \<or>
               authFlows signals \<or>
               score \<ge> 50
            then PageLevel
            else if int (apiCalls signals) > maxApiCalls (safe thresholds) \<or>
               int (useStateCount signals) > maxStateHooks (safe thresholds) \<or>
               int (useEffectCount signals) > maxEffects (safe thresholds) \<or>
               nativeHtmlCount > 0 \<or>
               score \<ge> 20
            then Careful
            else Safe)
     in \<lparr> riskLevel = level, complexity_score = min 100 score, detectedSignals = detected \<rparr>)"

subsection \<open>Native HTML element detection\<close>

text \<open>
  \<^verbatim>\<open>\s\<close> of a JavaScript regular expression, on the code units below 256: tab, line feed,
  vertical tab, form feed, carriage return, space, no-break space.
\<close>

definition isJsSpace :: "char \<Rightarrow> bool" where
  "isJsSpace c = ((of_char c :: nat) \<in> {9, 10, 11, 12, 13, 32, 160})"













text \<open>The risk tier and the weighted score in the words of the specification.\<close>

definition weightedScore :: "BusinessSignals \<Rightarrow> nat \<Rightarrow> nat \<Rightarrow> int" where
  "weightedScore signals nativeHtmlCount fileLines =
     15 * int (apiCalls signals) + 5 * int (useStateCount signals) + 10 * int (useEffectCount signals)
     + (if fileUploads signals then 25 else 0) + (if authFlows signals then 30 else 0)
     + (if formHandling signals then 10 else 0) + 2 * int nativeHtmlCount
     + (if fileLines > 300 then 10 else 0)"

definition isPageLevel :: "BusinessSignals \<Rightarrow> int \<Rightarrow> RiskThresholds \<Rightarrow> bool" where
  "isPageLevel signals score thresholds =
     (int (apiCalls signals) > maxApiCalls (careful thresholds) \<or>
      int (useStateCount signals) > maxStateHooks (careful thresholds) \<or>
      int (useEffectCount signals) > maxEffects (careful thresholds) \<or>
      fileUploads signals \<or> authFlows signals \<or> score \<ge> 50)"

definition isCareful :: "BusinessSignals \<Rightarrow> nat \<Rightarrow> int \<Rightarrow> RiskThresholds \<Rightarrow> bool" where
  "isCareful signals nativeHtmlCount score thresholds =
     (int (apiCalls signals) > maxApiCalls (safe thresholds) \<or>
      int (useStateCount signals) > maxStateHooks (safe thresholds) \<or>
      int (useEffectCount signals) > maxEffects (safe thresholds) \<or>
      nativeHtmlCount \<ge> 1 \<or> score \<ge> 20)"

definition riskTier :: "BusinessSignals \<Rightarrow> nat \<Rightarrow> int \<Rightarrow> RiskThresholds \<Rightarrow> RiskLevel" where
  "riskTier signals nativeHtmlCount score thresholds =
     (if isPageLevel signals score thresholds then PageLevel
      else if isCareful signals nativeHtmlCount score thresholds then Careful
      else Safe)"

section \<open>Import boundary analyzer\<close>

subsection \<open>The runtime the analyzer calls\<close>

text \<open>
  The analyzer calls the JavaScript regular-expression engine, \<^verbatim>\<open>node:path\<close>, \<^verbatim>\<open>node:fs\<close> and
  the TypeScript parser. They are parameters of the model, so every property below holds
  whatever they compute.
  \<^item> \<open>regexMatch src s\<close> is \<^verbatim>\<open>s.match(new RegExp(src))\<close>: \<open>Invalid\<close> when the constructor
    throws on a malformed pattern, \<open>NoMatch\<close> for \<^verbatim>\<open>null\<close>, \<open>Matched g\<close> with \<open>g\<close> the first
    capture group (\<^verbatim>\<open>match[1]\<close>, \<open>None\<close> when undefined).
  \<^item> \<open>resolve\<close>, \<open>dirname\<close>, \<open>relative\<close> are the functions of \<^verbatim>\<open>node:path\<close>, \<open>existsSync\<close> the
    one of \<^verbatim>\<open>node:fs\<close>.
  \<^item> \<open>parseImports filePath content\<close> is \<^verbatim>\<open>extractImports(ts.createSourceFile(...))\<close>, the
    script kind being chosen from the extension of \<open>filePath\<close>; \<open>None\<close> when the parser
    throws.
  \<^item> \<open>readTsConfig projectRoot\<close> reads and parses \<^verbatim>\<open>tsconfig.json\<close>; \<open>None\<close> when the file is
    missing, reports an error or the reader throws.
\<close>

datatype regex_result = Invalid | NoMatch | Matched "string option"

record ImportInfo =
  path :: string
  line :: nat
  isDynamic :: bool
  isRequire :: bool

record TsConfigPaths =
  baseUrl :: "string option"
  paths :: "(string \<times> string list) list option"

record runtime =
  regexMatch :: "string \<Rightarrow> string \<Rightarrow> regex_result"
  resolve :: "string list \<Rightarrow> string"
  dirname :: "string \<Rightarrow> string"
  relative :: "string \<Rightarrow> string \<Rightarrow> string"
  existsSync :: "string \<Rightarrow> bool"
  parseImports :: "string \<Rightarrow> string \<Rightarrow> ImportInfo list option"
  readTsConfig :: "string \<Rightarrow> TsConfigPaths option"

definition loadTsConfig :: "runtime \<Rightarrow> string \<Rightarrow> TsConfigPaths" where
  "loadTsConfig rt projectRoot =
     (case readTsConfig rt projectRoot of
        None \<Rightarrow> \<lparr> baseUrl = None, paths = None \<rparr>
      | Some cfg \<Rightarrow> cfg)"

subsection \<open>Path alias resolution\<close>

text \<open>
  \<^verbatim>\<open>s.replace(/\*/g, r)\<close>. The replacement text \<open>r\<close> is expanded as \<^verbatim>\<open>String.prototype.replace\<close>
  does for a pattern without capture groups: \<^verbatim>\<open>$$\<close> is a dollar sign, \<^verbatim>\<open>$&\<close> the matched star,
  \<^verbatim>\<open>$`\<close> the text before the match and \<^verbatim>\<open>$'\<close> the text after it.
\<close>

fun getSubstitution :: "string \<Rightarrow> string \<Rightarrow> string \<Rightarrow> string" where
  "getSubstitution [] pre post = []"
| "getSubstitution [c] pre post = [c]"
| "getSubstitution (c # d # r) pre post =
     (if c = CHR ''$'' \<and> d = CHR ''$'' then CHR ''$'' # getSubstitution r pre post
      else if c = CHR ''$'' \<and> d = CHR ''&'' then CHR ''*'' # getSubstitution r pre post
      else if c = CHR ''$'' \<and> d = CHR 0x60 then pre @ getSubstitution r pre post
      else if c = CHR ''$'' \<and> d = CHR 0x27 then post @ getSubstitution r pre post
      else c # getSubstitution (d # r) pre post)"

fun replaceStarsFrom :: "string \<Rightarrow> string \<Rightarrow> string \<Rightarrow> string" where
  "replaceStarsFrom r pre [] = []"
| "replaceStarsFrom r pre (c # cs) =
     (if c = CHR ''*'' then getSubstitution r pre cs @ replaceStarsFrom r (pre @ [c]) cs
      else c # replaceStarsFrom r (pre @ [c]) cs)"

definition replaceStars :: "string \<Rightarrow> string \<Rightarrow> string" where
  "replaceStars s r = replaceStarsFrom r [] s"

text \<open>\<^verbatim>\<open>x || y\<close> on strings that may be undefined: the empty string is falsy.\<close>

definition orElse :: "string option \<Rightarrow> string \<Rightarrow> string" where
  "orElse x y = (case x of None \<Rightarrow> y | Some v \<Rightarrow> if v = [] then y else v)"

definition orUndefined :: "string option \<Rightarrow> string option" where
  "orUndefined x = (case x of None \<Rightarrow> None | Some v \<Rightarrow> if v = [] then None else Some v)"

text \<open>
  The loop over \<^verbatim>\<open>Object.entries(tsConfig.paths)\<close>. \<open>Inr None\<close>: the loop ended without
  returning; \<open>Inr (Some p)\<close>: it returned \<open>p\<close>; \<open>Inl e\<close>: it threw \<open>e\<close>.
\<close>

fun aliasLoop ::
  "runtime \<Rightarrow> string \<Rightarrow> TsConfigPaths \<Rightarrow> string \<Rightarrow> (string \<times> string list) list
    \<Rightarrow> error + string option" where
  "aliasLoop rt importPath tsConfig projectRoot [] = Inr None"
| "aliasLoop rt importPath tsConfig projectRoot ((pattern, replacements) # rest) =
     (case regexMatch rt (''^'' @ replaceStars pattern ''(.+)'' @ ''$'') importPath of
        Invalid \<Rightarrow> Inl SyntaxError
      | NoMatch \<Rightarrow> aliasLoop rt importPath tsConfig projectRoot rest
      | Matched group1 \<Rightarrow>
          (case replacements of
             [] \<Rightarrow> aliasLoop rt importPath tsConfig projectRoot rest
           | replacement # _ \<Rightarrow>
               if replacement = [] then aliasLoop rt importPath tsConfig projectRoot rest
               else
                 (let resolved = replaceStars replacement (orElse group1 []);
                      base = orElse (baseUrl tsConfig) projectRoot
                  in Inr (Some (resolve rt [projectRoot, base, resolved])))))"

definition resolvePathAlias ::
  "runtime \<Rightarrow> string \<Rightarrow> TsConfigPaths \<Rightarrow> string \<Rightarrow> string \<Rightarrow> error + string option" where
  "resolvePathAlias rt importPath tsConfig projectRoot currentFileDir =
     (case (case paths tsConfig of
              None \<Rightarrow> Inr None
            | Some entries \<Rightarrow> aliasLoop rt importPath tsConfig projectRoot entries) of
        Inl e \<Rightarrow> Inl e
      | Inr (Some resolved) \<Rightarrow> Inr (Some resolved)
      | Inr None \<Rightarrow>
          if startsWith importPath ''.'' \<or> startsWith importPath ''/'' then
            (if startsWith importPath ''/''
             then Inr (Some (resolve rt [projectRoot, drop 1 importPath]))
             else Inr (Some (resolve rt [currentFileDir, importPath])))
          else Inr None)"

subsection \<open>Purity checking\<close>

record PurityConfig =
  enabled :: bool
  uiCandidateDirs :: "string list"
  forbiddenImportMatchers :: "string list"
  businessDirMatchers :: "string list"
  nextServerImportMatchers :: "string list"

datatype ReasonType = ForbiddenImport | ServerApi | Transitive | DataFetching

record ViolationReason =
  reason_type :: ReasonType
  reason_importPath :: string
  reason_resolvedPath :: "string option"
  reason_line :: "nat option"
  reason_message :: string

definition checkImportAgainstMatchers :: "string \<Rightarrow> string list \<Rightarrow> bool" where
  "checkImportAgainstMatchers importPath matchers =
     list_ex (\<lambda>matcher.
        if endsWith matcher ''/'' then startsWith importPath matcher
        else importPath = matcher \<or> startsWith importPath (matcher @ ''/'')) matchers"

definition isBusinessDir :: "string option \<Rightarrow> string list \<Rightarrow> bool" where
  "isBusinessDir resolvedPath matchers =
     (case resolvedPath of
        None \<Rightarrow> False
      | Some p \<Rightarrow>
          if p = [] then False
          else list_ex (\<lambda>matcher.
                 includes_str (map (\<lambda>c. if c = CHR 0x5C then CHR ''/'' else c) p) matcher)
               matchers)"

definition quoted :: "string \<Rightarrow> string" where
  "quoted s = [CHR 0x22] @ s @ [CHR 0x22]"

text \<open>
  The body of the loop of \<^verbatim>\<open>analyzeFileImports\<close> for one import: the reason it pushes, if
  any, or the error thrown by the resolver.
\<close>

definition classifyImport ::
  "runtime \<Rightarrow> PurityConfig \<Rightarrow> TsConfigPaths \<Rightarrow> string \<Rightarrow> string \<Rightarrow> ImportInfo
    \<Rightarrow> error + ViolationReason option" where
  "classifyImport rt purityConfig tsConfig projectRoot currentFileDir imp =
     (if checkImportAgainstMatchers (path imp) (forbiddenImportMatchers purityConfig) then
        (case resolvePathAlias rt (path imp) tsConfig projectRoot currentFileDir of
           Inl e \<Rightarrow> Inl e
         | Inr resolved \<Rightarrow>
             Inr (Some \<lparr> reason_type = ForbiddenImport, reason_importPath = path imp,
                         reason_resolvedPath = orUndefined resolved, reason_line = Some (line imp),
                         reason_message = ''Forbidden import: '' @ quoted (path imp) \<rparr>))
      else if checkImportAgainstMatchers (path imp) (nextServerImportMatchers purityConfig) then
        Inr (Some \<lparr> reason_type = ServerApi, reason_importPath = path imp,
                    reason_resolvedPath = None, reason_line = Some (line imp),
                    reason_message = ''Next.js server API: '' @ quoted (path imp) \<rparr>)
      else
        (case resolvePathAlias rt (path imp) tsConfig projectRoot currentFileDir of
           Inl e \<Rightarrow> Inl e
         | Inr resolved \<Rightarrow>
             if isBusinessDir resolved (businessDirMatchers purityConfig) then
               Inr (Some \<lparr> reason_type = ForbiddenImport, reason_importPath = path imp,
                           reason_resolvedPath = orUndefined resolved, reason_line = Some (line imp),
                           reason_message = ''Business logic zone import: '' @ quoted (path imp) \<rparr>)
             else Inr None))"

text \<open>
  The loop itself. An error thrown inside the \<^verbatim>\<open>try\<close> block ends the loop; the reasons pushed
  so far are returned.
\<close>

fun analyzeImportsLoop ::
  "runtime \<Rightarrow> PurityConfig \<Rightarrow> TsConfigPaths \<Rightarrow> string \<Rightarrow> string \<Rightarrow> ImportInfo list
    \<Rightarrow> ViolationReason list" where
  "analyzeImportsLoop rt purityConfig tsConfig projectRoot currentFileDir [] = []"
| "analyzeImportsLoop rt purityConfig tsConfig projectRoot currentFileDir (imp # imports) =
     (case classifyImport rt purityConfig tsConfig projectRoot currentFileDir imp of
        Inl e \<Rightarrow> []
      | Inr None \<Rightarrow> analyzeImportsLoop rt purityConfig tsConfig projectRoot currentFileDir imports
      | Inr (Some reason) \<Rightarrow>
          reason # analyzeImportsLoop rt purityConfig tsConfig projectRoot currentFileDir imports)"

text \<open>
  \<open>fileContents\<close> is the \<^verbatim>\<open>Map\<close> from absolute path to text, as the list of its entries in
  iteration order; \<^verbatim>\<open>get\<close> is \<^const>\<open>map_of\<close>. The \<open>visited\<close> argument is received and not used.
\<close>

definition analyzeFileImports ::
  "runtime \<Rightarrow> string \<Rightarrow> (string \<times> string) list \<Rightarrow> string \<Rightarrow> TsConfigPaths \<Rightarrow> PurityConfig
    \<Rightarrow> string set \<Rightarrow> ViolationReason list" where
  "analyzeFileImports rt filePath fileContents projectRoot tsConfig purityConfig visited =
     (case map_of fileContents filePath of
        None \<Rightarrow> []
      | Some content \<Rightarrow>
          if content = [] then []
          else
            (let currentFileDir = dirname rt filePath in
             case parseImports rt filePath content of
               None \<Rightarrow> []
             | Some imports \<Rightarrow>
                 analyzeImportsLoop rt purityConfig tsConfig projectRoot currentFileDir imports))"

subsection \<open>Transitive checking\<close>

definition extensions :: "string list" where
  "extensions = [''.ts'', ''.tsx'', ''.js'', ''.jsx'']"

text \<open>The inner loop over the extensions: the first candidate on disk and in the map.\<close>

fun probeExtensions :: "runtime \<Rightarrow> (string \<times> string) list \<Rightarrow> string \<Rightarrow> string list \<Rightarrow> string option" where
  "probeExtensions rt fileContents resolved [] = None"
| "probeExtensions rt fileContents resolved (ext # exts) =
     (let candidate = (if endsWith resolved ext then resolved else resolved @ ext) in
      if existsSync rt candidate \<and> map_of fileContents candidate \<noteq> None then Some candidate
      else probeExtensions rt fileContents resolved exts)"

fun transitiveLoop ::
  "runtime \<Rightarrow> (string \<times> string) list \<Rightarrow> string \<Rightarrow> TsConfigPaths \<Rightarrow> PurityConfig \<Rightarrow> string set
    \<Rightarrow> string \<Rightarrow> ImportInfo list \<Rightarrow> ViolationReason list" where
  "transitiveLoop rt fileContents projectRoot tsConfig purityConfig visited currentFileDir [] = []"
| "transitiveLoop rt fileContents projectRoot tsConfig purityConfig visited currentFileDir (imp # imports) =
     (if \<not> startsWith (path imp) ''.'' then
        transitiveLoop rt fileContents projectRoot tsConfig purityConfig visited currentFileDir imports
      else
        case resolvePathAlias rt (path imp) tsConfig projectRoot currentFileDir of
          Inl e \<Rightarrow> []
        | Inr None \<Rightarrow>
            transitiveLoop rt fileContents projectRoot tsConfig purityConfig visited currentFileDir imports
        | Inr (Some resolved) \<Rightarrow>
            if resolved = [] then
              transitiveLoop rt fileContents projectRoot tsConfig purityConfig visited currentFileDir imports
            else
              (case probeExtensions rt fileContents resolved extensions of
                 None \<Rightarrow>
                   transitiveLoop rt fileContents projectRoot tsConfig purityConfig visited currentFileDir imports
               | Some foundFile \<Rightarrow>
                   if analyzeFileImports rt foundFile fileContents projectRoot tsConfig purityConfig visited \<noteq> []
                   then \<lparr> reason_type = Transitive, reason_importPath = path imp,
                          reason_resolvedPath = Some foundFile, reason_line = None,
                          reason_message = ''Transitive dependency via '' @ quoted (path imp)
                                    @ '' imports business logic'' \<rparr>
                        # transitiveLoop rt fileContents projectRoot tsConfig purityConfig visited
                            currentFileDir imports
                   else transitiveLoop rt fileContents projectRoot tsConfig purityConfig visited
                          currentFileDir imports))"

text \<open>
  \<^verbatim>\<open>checkTransitiveImports\<close> returns its reasons and the \<open>visited\<close> set as it leaves it (the
  source mutates the caller's set).
\<close>

definition checkTransitiveImports ::
  "runtime \<Rightarrow> string \<Rightarrow> (string \<times> string) list \<Rightarrow> string \<Rightarrow> TsConfigPaths \<Rightarrow> PurityConfig
    \<Rightarrow> string set \<Rightarrow> ViolationReason list \<times> string set" where
  "checkTransitiveImports rt filePath fileContents projectRoot tsConfig purityConfig visited =
     (if filePath \<in> visited then ([], visited)
      else
        (let visited' = insert filePath visited in
         case map_of fileContents filePath of
           None \<Rightarrow> ([], visited')
         | Some content \<Rightarrow>
             if content = [] then ([], visited')
             else
               (let currentFileDir = dirname rt filePath in
                case parseImports rt filePath content of
                  None \<Rightarrow> ([], visited')
                | Some imports \<Rightarrow>
                    (transitiveLoop rt fileContents projectRoot tsConfig purityConfig visited'
                       currentFileDir imports, visited'))))"

subsection \<open>File analysis\<close>

datatype Purity = Pure | Impure

record ImportBoundaryReport =
  report_path :: string
  isUiCandidate :: bool
  purity :: Purity
  score :: int
  reasons :: "ViolationReason list"

text \<open>
  The two data-fetching patterns \<^verbatim>\<open>/\bfetch\s*\(/\<close> and \<^verbatim>\<open>/\baxios\./\<close>. Both begin with a word
  character, so the word boundary holds where the previous character is not a word
  character (or at the start of the text).
\<close>

definition isWordChar :: "char \<Rightarrow> bool" where
  "isWordChar c =
     (let n = (of_char c :: nat) in
      (48 \<le> n \<and> n \<le> 57) \<or> (65 \<le> n \<and> n \<le> 90) \<or> (97 \<le> n \<and> n \<le> 122) \<or> n = 95)"

definition fetchAt :: "string \<Rightarrow> bool" where
  "fetchAt s =
     (startsWith s ''fetch'' \<and>
      (case dropWhile isJsSpace (drop 5 s) of [] \<Rightarrow> False | c # _ \<Rightarrow> c = CHR ''(''))"

definition axiosAt :: "string \<Rightarrow> bool" where
  "axiosAt s = startsWith s ''axios.''"

fun testAtBoundary :: "(string \<Rightarrow> bool) \<Rightarrow> bool \<Rightarrow> string \<Rightarrow> bool" where
  "testAtBoundary p prevIsWord [] = False"
| "testAtBoundary p prevIsWord (c # cs) =
     ((\<not> prevIsWord \<and> p (c # cs)) \<or> testAtBoundary p (isWordChar c) cs)"

definition dataFetchingPatterns :: "(string \<Rightarrow> bool) list" where
  "dataFetchingPatterns = [testAtBoundary fetchAt False, testAtBoundary axiosAt False]"

fun dataFetchingReasons :: "(string \<Rightarrow> bool) list \<Rightarrow> string \<Rightarrow> ViolationReason list" where
  "dataFetchingReasons [] content = []"
| "dataFetchingReasons (pattern # patterns) content =
     (if pattern content
      then [\<lparr> reason_type = DataFetching, reason_importPath = [], reason_resolvedPath = None, reason_line = None,
               reason_message = ''Data fetching detected (fetch/axios)'' \<rparr>]
      else dataFetchingReasons patterns content)"

definition weight :: "ReasonType \<Rightarrow> int" where
  "weight t = (case t of ForbiddenImport \<Rightarrow> 30 | ServerApi \<Rightarrow> 25 | Transitive \<Rightarrow> 15 | DataFetching \<Rightarrow> 10)"

definition isUiCandidatePath :: "PurityConfig \<Rightarrow> string \<Rightarrow> bool" where
  "isUiCandidatePath purityConfig relativePath =
     list_ex (\<lambda>dir. startsWith relativePath dir \<or> startsWith relativePath (dir @ ''/''))
       (uiCandidateDirs purityConfig)"

definition analyzeFile ::
  "runtime \<Rightarrow> string \<Rightarrow> string \<Rightarrow> (string \<times> string) list \<Rightarrow> string \<Rightarrow> TsConfigPaths \<Rightarrow> PurityConfig
    \<Rightarrow> ImportBoundaryReport option" where
  "analyzeFile rt filePath relativePath fileContents projectRoot tsConfig purityConfig =
     (if \<not> isUiCandidatePath purityConfig relativePath then None
      else
        case map_of fileContents filePath of
          None \<Rightarrow> None
        | Some content \<Rightarrow>
            if content = [] then None
            else
              (let visited = {};
                   directReasons = analyzeFileImports rt filePath fileContents projectRoot tsConfig
                                     purityConfig visited;
                   (transitiveReasons, visited1) =
                     checkTransitiveImports rt filePath fileContents projectRoot tsConfig
                       purityConfig visited;
                   allReasons = directReasons @ transitiveReasons
                                @ dataFetchingReasons dataFetchingPatterns content;
                   total = foldl (\<lambda>s reason. s + weight (reason_type reason)) 0 allReasons;
                   clamped = min 100 total
               in Some \<lparr> report_path = relativePath, isUiCandidate = True,
                          purity = (if clamped > 0 then Impure else Pure),
                          score = clamped, reasons = allReasons \<rparr>))"

subsection \<open>Public interface\<close>

fun buildReports ::
  "runtime \<Rightarrow> (string \<times> string) list \<Rightarrow> string \<Rightarrow> TsConfigPaths \<Rightarrow> PurityConfig
    \<Rightarrow> (string \<times> string) list \<Rightarrow> (string \<rightharpoonup> ImportBoundaryReport)
    \<Rightarrow> (string \<rightharpoonup> ImportBoundaryReport)" where
  "buildReports rt fileContents projectRoot tsConfig purityConfig [] reports = reports"
| "buildReports rt fileContents projectRoot tsConfig purityConfig ((filePath, content) # rest) reports =
     (let relativePath = relative rt projectRoot filePath in
      case analyzeFile rt filePath relativePath fileContents projectRoot tsConfig purityConfig of
        Some report \<Rightarrow>
          buildReports rt fileContents projectRoot tsConfig purityConfig rest
            (reports(relativePath \<mapsto> report))
      | None \<Rightarrow> buildReports rt fileContents projectRoot tsConfig purityConfig rest reports)"

definition analyzeImportBoundaries ::
  "runtime \<Rightarrow> (string \<times> string) list \<Rightarrow> string \<Rightarrow> PurityConfig
    \<Rightarrow> (string \<rightharpoonup> ImportBoundaryReport)" where
  "analyzeImportBoundaries rt fileContents projectRoot purityConfig =
     (if \<not> enabled purityConfig then Map.empty
      else buildReports rt fileContents projectRoot (loadTsConfig rt projectRoot) purityConfig
             fileContents Map.empty)"

section \<open>The claims in the words of the specification\<close>

text \<open>
  The definitions of this section are not translations of source functions: they state what
  the specification says, built from the source's own predicates, to be compared with the
  embedded code.
\<close>

text \<open>The resolved path of an import, \<open>None\<close> when the resolver returned \<^verbatim>\<open>null\<close> or threw.\<close>

definition resolvedOf :: "error + string option \<Rightarrow> string option" where
  "resolvedOf r = (case r of Inl e \<Rightarrow> None | Inr p \<Rightarrow> p)"

text \<open>The decision order of the boundary rule engine: the first matching rule wins.\<close>

definition firstMatch :: "PurityConfig \<Rightarrow> ImportInfo \<Rightarrow> string option \<Rightarrow> ViolationReason option" where
  "firstMatch purityConfig imp resolved =
     (if checkImportAgainstMatchers (path imp) (forbiddenImportMatchers purityConfig) then
        Some \<lparr> reason_type = ForbiddenImport, reason_importPath = path imp,
               reason_resolvedPath = orUndefined resolved, reason_line = Some (line imp),
               reason_message = ''Forbidden import: '' @ quoted (path imp) \<rparr>
      else if checkImportAgainstMatchers (path imp) (nextServerImportMatchers purityConfig) then
        Some \<lparr> reason_type = ServerApi, reason_importPath = path imp,
               reason_resolvedPath = None, reason_line = Some (line imp),
               reason_message = ''Next.js server API: '' @ quoted (path imp) \<rparr>
      else if isBusinessDir resolved (businessDirMatchers purityConfig) then
        Some \<lparr> reason_type = ForbiddenImport, reason_importPath = path imp,
               reason_resolvedPath = orUndefined resolved, reason_line = Some (line imp),
               reason_message = ''Business logic zone import: '' @ quoted (path imp) \<rparr>
      else None)"

text \<open>The candidates probed for a resolved path, in order.\<close>

definition probeCandidates :: "string \<Rightarrow> string list" where
  "probeCandidates resolved =
     map (\<lambda>ext. if endsWith resolved ext then resolved else resolved @ ext) extensions"






section \<open>Fixtures for concrete evaluation\<close>

definition sampleThresholds :: RiskThresholds where
  "sampleThresholds =
     \<lparr> safe = \<lparr> maxApiCalls = 0, maxStateHooks = 2, maxEffects = 1 \<rparr>,
       careful = \<lparr> maxApiCalls = 2, maxStateHooks = 5, maxEffects = 3 \<rparr> \<rparr>"

definition negativeCeiling :: RiskThresholds where
  "negativeCeiling =
     \<lparr> safe = \<lparr> maxApiCalls = 0, maxStateHooks = 2, maxEffects = 1 \<rparr>,
       careful = \<lparr> maxApiCalls = - 1, maxStateHooks = 5, maxEffects = 3 \<rparr> \<rparr>"


definition noSignals :: BusinessSignals where
  "noSignals =
     \<lparr> apiCalls = 0, useStateCount = 0, useEffectCount = 0,
       fileUploads = False, authFlows = False, formHandling = False \<rparr>"

text \<open>
  A small project rooted at \<^verbatim>\<open>/p\<close> with UI files under \<^verbatim>\<open>/p/ui\<close>. The runtime is given
  by tables that agree with Node and the TypeScript parser on the inputs used.
\<close>

definition staticImport :: "string \<Rightarrow> nat \<Rightarrow> ImportInfo" where
  "staticImport p l = \<lparr> path = p, line = l, isDynamic = False, isRequire = False \<rparr>"

definition cardSource :: string where
  \<open>cardSource = ''import "@/lib/api"; import "./helper";''\<close>

definition helperSource :: string where
  \<open>helperSource = ''import "@/db/client";''\<close>

definition aSource :: string where
  \<open>aSource = ''import "./b";''\<close>

definition bSource :: string where
  \<open>bSource = ''import "./a"; import "@/db/client";''\<close>

definition manySource :: string where
  \<open>manySource = ''import "@/lib/a"; import "@/lib/b"; import "@/db/c"; import "next/headers"; fetch("/x");''\<close>

definition viewSource :: string where
  \<open>viewSource = ''import "./util.mjs";''\<close>

definition apiSource :: string where
  \<open>apiSource = ''export const api = 1;''\<close>

definition projectFiles :: "(string \<times> string) list" where
  "projectFiles =
     [(''/p/ui/card.tsx'', cardSource),
      (''/p/ui/helper.ts'', helperSource),
      (''/p/ui/a.ts'', aSource),
      (''/p/ui/b.ts'', bSource),
      (''/p/ui/view.tsx'', viewSource),
      (''/p/ui/util.mjs'', helperSource),
      (''/p/ui/many.tsx'', manySource),
      (''/p/ui/empty.tsx'', ''''),
      (''/p/lib/api.ts'', apiSource)]"

definition projectRuntime :: runtime where
  "projectRuntime =
     \<lparr> regexMatch = (\<lambda>src s. NoMatch),
       resolve = (\<lambda>ps.
          if ps = [''/p/ui'', ''./helper''] then ''/p/ui/helper''
          else if ps = [''/p/ui'', ''./a''] then ''/p/ui/a''
          else if ps = [''/p/ui'', ''./b''] then ''/p/ui/b''
          else if ps = [''/p/ui'', ''./util.mjs''] then ''/p/ui/util.mjs''
          else if ps = [''/p/ui'', ''../lib/api''] then ''/p/lib/api''
          else ''/p''),
       dirname = (\<lambda>f. if startsWith f ''/p/ui/'' then ''/p/ui'' else ''/p/lib''),
       relative = (\<lambda>root f. drop 3 f),
       existsSync = (\<lambda>f. map_of projectFiles f \<noteq> None),
       parseImports = (\<lambda>f content.
          if content = cardSource then Some [staticImport ''@/lib/api'' 1, staticImport ''./helper'' 1]
          else if content = helperSource then Some [staticImport ''@/db/client'' 1]
          else if content = aSource then Some [staticImport ''./b'' 1]
          else if content = bSource then Some [staticImport ''./a'' 1, staticImport ''@/db/client'' 1]
          else if content = manySource
            then Some [staticImport ''@/lib/a'' 1, staticImport ''@/lib/b'' 1, staticImport ''@/db/c'' 1, staticImport ''next/headers'' 1]
          else if content = viewSource then Some [staticImport ''./util.mjs'' 1]
          else Some []),
       readTsConfig = (\<lambda>root. None) \<rparr>"

definition noTsConfig :: TsConfigPaths where
  "noTsConfig = \<lparr> baseUrl = None, paths = None \<rparr>"

definition projectConfig :: PurityConfig where
  "projectConfig =
     \<lparr> enabled = True,
       uiCandidateDirs = [''ui''],
       forbiddenImportMatchers = [''@/lib/'', ''@/db/''],
       businessDirMatchers = [''lib/'', ''db/''],
       nextServerImportMatchers = [''next/headers'', ''next/cache''] \<rparr>"

text \<open>
  The fixture of the repository's test of transitive coupling: a component that imports
  \<^verbatim>\<open>./helper.js\<close>, and the helper \<^verbatim>\<open>helper.ts\<close> that imports a forbidden module.
\<close>

definition couplingSource :: string where
  \<open>couplingSource = ''import "./helper.js";''\<close>

definition couplingFiles :: "(string \<times> string) list" where
  "couplingFiles =
     [(''/p/ui/transitive-impure.tsx'', couplingSource),
      (''/p/ui/helper.ts'', helperSource)]"

definition couplingRuntime :: runtime where
  "couplingRuntime =
     projectRuntime
       \<lparr> resolve := (\<lambda>ps.
            if ps = [''/p/ui'', ''./helper.js''] then ''/p/ui/helper.js'' else ''/p''),
         existsSync := (\<lambda>f. map_of couplingFiles f \<noteq> None),
         parseImports := (\<lambda>f content.
            if content = couplingSource then Some [staticImport ''./helper.js'' 1]
            else if content = helperSource then Some [staticImport ''@/db/client'' 1]
            else Some []) \<rparr>"

text \<open>A file that imports the same helper twice, and a file that imports itself.\<close>

definition twiceSource :: string where
  \<open>twiceSource = ''import "./helper"; import "./helper";''\<close>

definition selfSource :: string where
  \<open>selfSource = ''import "@/lib/api"; import "./self";''\<close>

definition twiceFiles :: "(string \<times> string) list" where
  "twiceFiles =
     [(''/p/ui/twice.tsx'', twiceSource),
      (''/p/ui/helper.ts'', helperSource),
      (''/p/ui/self.tsx'', selfSource)]"

definition twiceRuntime :: runtime where
  "twiceRuntime =
     projectRuntime
       \<lparr> resolve := (\<lambda>ps.
            if ps = [''/p/ui'', ''./helper''] then ''/p/ui/helper''
            else if ps = [''/p/ui'', ''./self''] then ''/p/ui/self''
            else ''/p''),
         existsSync := (\<lambda>f. map_of twiceFiles f \<noteq> None),
         parseImports := (\<lambda>f content.
            if content = twiceSource then Some [staticImport ''./helper'' 1, staticImport ''./helper'' 1]
            else if content = selfSource then Some [staticImport ''@/lib/api'' 1, staticImport ''./self'' 1]
            else if content = helperSource then Some [staticImport ''@/db/client'' 1]
            else Some []) \<rparr>"

definition helperReason :: ViolationReason where
  "helperReason =
     \<lparr> reason_type = Transitive, reason_importPath = ''./helper'',
       reason_resolvedPath = Some ''/p/ui/helper.ts'', reason_line = None,
       reason_message = ''Transitive dependency via '' @ quoted ''./helper''
                        @ '' imports business logic'' \<rparr>"

text \<open>Two files outside the directory \<^verbatim>\<open>ui\<close> whose relative paths begin with its name.\<close>

definition siblingFiles :: "(string \<times> string) list" where
  "siblingFiles =
     [(''/p/ui-legacy/old.tsx'', apiSource),
      (''/p/uix.ts'', apiSource)]"

definition siblingRuntime :: runtime where
  "siblingRuntime =
     projectRuntime
       \<lparr> dirname := (\<lambda>f. if startsWith f ''/p/ui-legacy/'' then ''/p/ui-legacy'' else ''/p''),
         existsSync := (\<lambda>f. map_of siblingFiles f \<noteq> None) \<rparr>"




definition cardReport :: ImportBoundaryReport where
  "cardReport =
     \<lparr> report_path = ''ui/card.tsx'', isUiCandidate = True, purity = Impure, score = 45,
       reasons =
         [\<lparr> reason_type = ForbiddenImport, reason_importPath = ''@/lib/api'',
             reason_resolvedPath = None, reason_line = Some 1,
             reason_message = ''Forbidden import: '' @ quoted ''@/lib/api'' \<rparr>,
          \<lparr> reason_type = Transitive, reason_importPath = ''./helper'',
             reason_resolvedPath = Some ''/p/ui/helper.ts'', reason_line = None,
             reason_message = ''Transitive dependency via '' @ quoted ''./helper''
                              @ '' imports business logic'' \<rparr>] \<rparr>"

section \<open>Verified properties\<close>

subsection \<open>Risk assessment\<close>

lemma countRiskFactors_score:
  "snd (countRiskFactors signals n l) = weightedScore signals n l"
  by (simp add: countRiskFactors_def weightedScore_def Let_def)

text \<open>
  Claim C5, as stated, fails in its last sentence: with a careful ceiling of \<open>-1\<close> for API
  calls, a file with exactly one native element and no other signal is page-level, since
  0 API calls exceed the ceiling and page-level is decided first.
\<close>

theorem one_native_element_page_level:
  "riskLevel (assessRisk noSignals 1 12 negativeCeiling) = PageLevel"
  by (simp add: assessRisk_def countRiskFactors_def noSignals_def negativeCeiling_def Let_def)

text \<open>
  Claim C5, amended. The risk tier returned by \<^verbatim>\<open>assessRisk\<close> is decided page-level first, then
  careful, then safe, on the ceilings, the upload and auth flags, the presence of a native
  element and the weighted score (thresholds 50 and 20); deciding on the reported, clamped
  score gives the same tier. A file with exactly one native element and no business
  signal is careful, whatever its length, when the careful ceilings are not negative.
\<close>

theorem assessRisk_tier_order:
  "riskLevel (assessRisk signals n l th) = riskTier signals n (weightedScore signals n l) th
   \<and> riskLevel (assessRisk signals n l th) = riskTier signals n (complexity_score (assessRisk signals n l th)) th
   \<and> complexity_score (assessRisk signals n l th) = min 100 (weightedScore signals n l)
   \<and> (apiCalls signals = 0 \<and> useStateCount signals = 0 \<and> useEffectCount signals = 0
        \<and> \<not> fileUploads signals \<and> \<not> authFlows signals \<and> \<not> formHandling signals \<and> n = 1
        \<and> 0 \<le> maxApiCalls (careful th) \<and> 0 \<le> maxStateHooks (careful th) \<and> 0 \<le> maxEffects (careful th)
       \<longrightarrow> riskLevel (assessRisk signals n l th) = Careful)"
proof -
  obtain d s where ds: "countRiskFactors signals n l = (d, s)"
    by (cases "countRiskFactors signals n l")
  have s: "s = weightedScore signals n l"
    using countRiskFactors_score[of signals n l] ds by simp
  have lvl: "riskLevel (assessRisk signals n l th) = riskTier signals n s th"
    by (auto simp: assessRisk_def ds riskTier_def isPageLevel_def isCareful_def)
  have sc: "complexity_score (assessRisk signals n l th) = min 100 s"
    by (simp add: assessRisk_def ds)
  have clamp: "riskTier signals n (min 100 s) th = riskTier signals n s th"
    by (auto simp: riskTier_def isPageLevel_def isCareful_def)
  have one: "apiCalls signals = 0 \<and> useStateCount signals = 0 \<and> useEffectCount signals = 0
        \<and> \<not> fileUploads signals \<and> \<not> authFlows signals \<and> \<not> formHandling signals \<and> n = 1
        \<and> 0 \<le> maxApiCalls (careful th) \<and> 0 \<le> maxStateHooks (careful th) \<and> 0 \<le> maxEffects (careful th)
       \<longrightarrow> riskTier signals n s th = Careful"
    unfolding s by (auto simp: riskTier_def isPageLevel_def isCareful_def weightedScore_def)
  have a: "riskLevel (assessRisk signals n l th) = riskTier signals n (weightedScore signals n l) th"
    using lvl s by simp
  have b: "riskLevel (assessRisk signals n l th) =
           riskTier signals n (complexity_score (assessRisk signals n l th)) th"
    using lvl sc clamp by simp
  have c: "complexity_score (assessRisk signals n l th) = min 100 (weightedScore signals n l)"
    using sc s by simp
  have d: "apiCalls signals = 0 \<and> useStateCount signals = 0 \<and> useEffectCount signals = 0
        \<and> \<not> fileUploads signals \<and> \<not> authFlows signals \<and> \<not> formHandling signals \<and> n = 1
        \<and> 0 \<le> maxApiCalls (careful th) \<and> 0 \<le> maxStateHooks (careful th) \<and> 0 \<le> maxEffects (careful th)
       \<longrightarrow> riskLevel (assessRisk signals n l th) = Careful"
    unfolding lvl by (rule one)
  show ?thesis using a b c d by blast
qed

theorem assessRisk_tier_order_witness:
  "riskLevel (assessRisk noSignals 1 12 sampleThresholds) = Careful
   \<and> complexity_score (assessRisk noSignals 1 12 sampleThresholds) = 2"
proof -
  have h: "apiCalls noSignals = 0 \<and> useStateCount noSignals = 0 \<and> useEffectCount noSignals = 0
        \<and> \<not> fileUploads noSignals \<and> \<not> authFlows noSignals \<and> \<not> formHandling noSignals
        \<and> (1::nat) = 1
        \<and> 0 \<le> maxApiCalls (careful sampleThresholds)
        \<and> 0 \<le> maxStateHooks (careful sampleThresholds)
        \<and> 0 \<le> maxEffects (careful sampleThresholds)"
    by (simp add: noSignals_def sampleThresholds_def)
  have w: "min 100 (weightedScore noSignals 1 12) = 2"
    by (simp add: noSignals_def weightedScore_def)
  note t = assessRisk_tier_order[of noSignals 1 12 sampleThresholds]
  from t have imp: "apiCalls noSignals = 0 \<and> useStateCount noSignals = 0 \<and> useEffectCount noSignals = 0
        \<and> \<not> fileUploads noSignals \<and> \<not> authFlows noSignals \<and> \<not> formHandling noSignals
        \<and> (1::nat) = 1
        \<and> 0 \<le> maxApiCalls (careful sampleThresholds)
        \<and> 0 \<le> maxStateHooks (careful sampleThresholds)
        \<and> 0 \<le> maxEffects (careful sampleThresholds)
       \<longrightarrow> riskLevel (assessRisk noSignals 1 12 sampleThresholds) = Careful"
    by (elim conjE)
  from t have sc: "complexity_score (assessRisk noSignals 1 12 sampleThresholds) =
                   min 100 (weightedScore noSignals 1 12)"
    by (elim conjE)
  from imp h have "riskLevel (assessRisk noSignals 1 12 sampleThresholds) = Careful"
    by (rule mp)
  with sc w show ?thesis by simp
qed

subsection \<open>Native HTML element counts\<close>






















subsection \<open>Evaluation of the fixtures\<close>

lemmas fixture_defs =
  projectRuntime_def projectFiles_def projectConfig_def noTsConfig_def staticImport_def
  cardSource_def helperSource_def aSource_def bSource_def viewSource_def apiSource_def manySource_def

lemmas analyzer_defs =
  analyzeFile_def analyzeFileImports_def checkTransitiveImports_def classifyImport_def
  resolvePathAlias_def checkImportAgainstMatchers_def isBusinessDir_def endsWith_def
  isUiCandidatePath_def extensions_def dataFetchingPatterns_def fetchAt_def axiosAt_def
  isWordChar_def isJsSpace_def weight_def quoted_def orUndefined_def Let_def


lemmas scenario_defs =
  couplingSource_def couplingFiles_def couplingRuntime_def twiceSource_def selfSource_def
  twiceFiles_def twiceRuntime_def helperReason_def siblingFiles_def siblingRuntime_def

lemma card_report:
  "analyzeFile projectRuntime ''/p/ui/card.tsx'' ''ui/card.tsx'' projectFiles ''/p'' noTsConfig projectConfig
     = Some cardReport"
  by (simp add: cardReport_def fixture_defs analyzer_defs)

subsection \<open>Star replacement and the alias loop\<close>







subsection \<open>Boundary rule engine\<close>

lemma classifyImport_Inr:
  "classifyImport rt cfg ts root dir imp = Inr res \<Longrightarrow>
     res = firstMatch cfg imp (resolvedOf (resolvePathAlias rt (path imp) ts root dir))"
  by (auto simp: classifyImport_def firstMatch_def resolvedOf_def split: if_splits sum.splits)







subsection \<open>Purity score\<close>

lemma foldl_weight:
  "foldl (\<lambda>s reason. s + weight (reason_type reason)) a rs = a + sum_list (map (\<lambda>r. weight (reason_type r)) rs)"
  by (induction rs arbitrary: a) auto

lemma weight_pos: "0 < weight t"
  by (cases t) (auto simp: weight_def)

lemma sum_weights_nonneg: "0 \<le> sum_list (map (\<lambda>r. weight (reason_type r)) rs)"
  by (induction rs) (auto simp: less_imp_le[OF weight_pos] intro: add_nonneg_nonneg)

lemma sum_weights_pos: "rs \<noteq> [] \<Longrightarrow> 0 < sum_list (map (\<lambda>r. weight (reason_type r)) rs)"
  using weight_pos sum_weights_nonneg by (cases rs) (auto intro: add_pos_nonneg)

lemma sum_weights_count:
  "sum_list (map (\<lambda>r. weight (reason_type r)) rs) =
     30 * int (length (filter (\<lambda>r. reason_type r = ForbiddenImport) rs))
   + 25 * int (length (filter (\<lambda>r. reason_type r = ServerApi) rs))
   + 15 * int (length (filter (\<lambda>r. reason_type r = Transitive) rs))
   + 10 * int (length (filter (\<lambda>r. reason_type r = DataFetching) rs))"
proof (induction rs)
  case Nil show ?case by simp
next
  case (Cons r rs)
  then show ?case by (cases "reason_type r") (auto simp: weight_def)
qed

lemma analyzeFile_Some:
  assumes "analyzeFile rt fp rel files root ts cfg = Some rep"
  shows "isUiCandidatePath cfg rel"
    and "\<exists>content. map_of files fp = Some content \<and> content \<noteq> [] \<and>
           reasons rep = analyzeFileImports rt fp files root ts cfg {}
              @ fst (checkTransitiveImports rt fp files root ts cfg {})
              @ dataFetchingReasons dataFetchingPatterns content"
    and "score rep = min 100 (sum_list (map (\<lambda>r. weight (reason_type r)) (reasons rep)))"
    and "purity rep = (if score rep > 0 then Impure else Pure)"
    and "report_path rep = rel" and "isUiCandidate rep"
  using assms
  by (auto simp: analyzeFile_def Let_def foldl_weight split: if_splits option.splits prod.splits)

text \<open>
  Claim C2. In every report of \<^verbatim>\<open>analyzeFile\<close> the score is the sum of the weights of the
  reasons (30, 25, 15, 10) clamped to 100, it lies between 0 and 100, the file is impure
  exactly when the score is positive, and an impure report has a reason.
\<close>

theorem analyzeFile_score_invariant:
  "analyzeFile rt fp rel files root ts cfg = Some rep \<Longrightarrow>
     score rep = min 100
        (30 * int (length (filter (\<lambda>r. reason_type r = ForbiddenImport) (reasons rep)))
       + 25 * int (length (filter (\<lambda>r. reason_type r = ServerApi) (reasons rep)))
       + 15 * int (length (filter (\<lambda>r. reason_type r = Transitive) (reasons rep)))
       + 10 * int (length (filter (\<lambda>r. reason_type r = DataFetching) (reasons rep))))
     \<and> 0 \<le> score rep \<and> score rep \<le> 100
     \<and> (purity rep = Impure \<longleftrightarrow> score rep > 0)
     \<and> (purity rep = Impure \<longrightarrow> reasons rep \<noteq> [])"
proof -
  assume a: "analyzeFile rt fp rel files root ts cfg = Some rep"
  let ?sum = "sum_list (map (\<lambda>r. weight (reason_type r)) (reasons rep))"
  have s: "score rep = min 100 ?sum" by (rule analyzeFile_Some(3)[OF a])
  have p: "purity rep = (if score rep > 0 then Impure else Pure)" by (rule analyzeFile_Some(4)[OF a])
  have nn: "0 \<le> ?sum" by (rule sum_weights_nonneg)
  have e: "reasons rep = [] \<Longrightarrow> score rep = 0" using s by simp
  show ?thesis
    using s p nn e sum_weights_count[of "reasons rep"] by (auto split: if_splits)
qed

theorem analyzeFile_score_invariant_witness:
  "score (the (analyzeFile projectRuntime ''/p/ui/many.tsx'' ''ui/many.tsx'' projectFiles ''/p'' noTsConfig projectConfig)) = 100
   \<and> purity (the (analyzeFile projectRuntime ''/p/ui/many.tsx'' ''ui/many.tsx'' projectFiles ''/p'' noTsConfig projectConfig)) = Impure
   \<and> map reason_type (reasons (the (analyzeFile projectRuntime ''/p/ui/many.tsx'' ''ui/many.tsx'' projectFiles ''/p'' noTsConfig projectConfig)))
       = [ForbiddenImport, ForbiddenImport, ForbiddenImport, ServerApi, DataFetching]"
proof -
  let ?r = "analyzeFile projectRuntime ''/p/ui/many.tsx'' ''ui/many.tsx'' projectFiles ''/p'' noTsConfig projectConfig"
  have t: "map reason_type (reasons (the ?r)) = [ForbiddenImport, ForbiddenImport, ForbiddenImport, ServerApi, DataFetching]"
    and s: "?r = Some (the ?r)"
    by (simp_all add: fixture_defs analyzer_defs)
  have f: "length (filter (\<lambda>r. reason_type r = t) rs) = length (filter (\<lambda>x. x = t) (map reason_type rs))" for t rs
    by (induction rs) auto
  from analyzeFile_score_invariant[OF s]
  show ?thesis using t by (simp add: f)
qed

subsection \<open>Extension probing\<close>

lemma probeExtensions_find:
  "probeExtensions rt files resolved exts =
     find (\<lambda>c. existsSync rt c \<and> map_of files c \<noteq> None)
       (map (\<lambda>ext. if endsWith resolved ext then resolved else resolved @ ext) exts)"
  by (induction exts) (auto simp: Let_def)

lemma probeExtensions_candidates:
  "probeExtensions rt files resolved extensions =
     find (\<lambda>c. existsSync rt c \<and> map_of files c \<noteq> None) (probeCandidates resolved)
   \<and> probeCandidates resolved =
       [if endsWith resolved ''.ts'' then resolved else resolved @ ''.ts'',
        if endsWith resolved ''.tsx'' then resolved else resolved @ ''.tsx'',
        if endsWith resolved ''.js'' then resolved else resolved @ ''.js'',
        if endsWith resolved ''.jsx'' then resolved else resolved @ ''.jsx'']"
  by (simp add: probeExtensions_find probeCandidates_def extensions_def)

text \<open>
  Claim C3. The code does not probe the candidates the claim describes. The resolved path
  as given is not probed unless it already ends with one of the four suffixes:
  \<^verbatim>\<open>/p/ui/util.mjs\<close> is on disk and in the content map, no candidate is found for it, and the
  file that imports it is reported pure. Nor is a suffix ever replaced: in the fixture of
  the repository's own test of transitive coupling, \<^verbatim>\<open>./helper.js\<close> is never probed as
  \<^verbatim>\<open>helper.ts\<close>, which is on disk and in the map, and the importing component gets no
  transitive reason, where the test asserts one.
\<close>

theorem probe_skips_path_as_given:
  "probeCandidates ''/p/ui/util.mjs''
     = [''/p/ui/util.mjs.ts'', ''/p/ui/util.mjs.tsx'', ''/p/ui/util.mjs.js'', ''/p/ui/util.mjs.jsx'']
   \<and> existsSync projectRuntime ''/p/ui/util.mjs''
   \<and> map_of projectFiles ''/p/ui/util.mjs'' = Some helperSource
   \<and> probeExtensions projectRuntime projectFiles ''/p/ui/util.mjs'' extensions = None
   \<and> analyzeFile projectRuntime ''/p/ui/view.tsx'' ''ui/view.tsx'' projectFiles ''/p'' noTsConfig projectConfig
       = Some \<lparr> report_path = ''ui/view.tsx'', isUiCandidate = True, purity = Pure, score = 0, reasons = [] \<rparr>
   \<and> probeCandidates ''/p/ui/helper.js''
     = [''/p/ui/helper.js.ts'', ''/p/ui/helper.js.tsx'', ''/p/ui/helper.js'', ''/p/ui/helper.js.jsx'']
   \<and> existsSync couplingRuntime ''/p/ui/helper.ts''
   \<and> map_of couplingFiles ''/p/ui/helper.ts'' = Some helperSource
   \<and> probeExtensions couplingRuntime couplingFiles ''/p/ui/helper.js'' extensions = None
   \<and> analyzeFile couplingRuntime ''/p/ui/transitive-impure.tsx'' ''ui/transitive-impure.tsx'' couplingFiles
         ''/p'' noTsConfig projectConfig
       = Some \<lparr> report_path = ''ui/transitive-impure.tsx'', isUiCandidate = True, purity = Pure,
                  score = 0, reasons = [] \<rparr>"
  by (simp add: probeCandidates_def fixture_defs scenario_defs analyzer_defs)

subsection \<open>Transitive check\<close>

lemma transitiveLoop_length:
  "length (transitiveLoop rt files root ts cfg visited dir imps) \<le> length imps"
  by (induction imps) (auto split: sum.splits option.splits)

lemma transitiveLoop_types:
  "r \<in> set (transitiveLoop rt files root ts cfg visited dir imps) \<Longrightarrow> reason_type r = Transitive"
  by (induction imps) (auto split: sum.splits option.splits if_splits)

text \<open>
  \<^verbatim>\<open>checkTransitiveImports\<close> is a total function: it makes one pass over the imports of the
  file and calls only the direct check on each target. A file already in the visited set
  is skipped with the set unchanged, a file not yet visited is added to the set, and the
  reason list is never longer than the list of imports of the file.
\<close>

lemma checkTransitiveImports_terminates:
  "(filePath \<in> visited \<longrightarrow>
      checkTransitiveImports rt filePath files root ts cfg visited = ([], visited))
   \<and> (filePath \<notin> visited \<longrightarrow>
      snd (checkTransitiveImports rt filePath files root ts cfg visited) = insert filePath visited)
   \<and> fst (checkTransitiveImports rt filePath files root ts cfg
            (snd (checkTransitiveImports rt filePath files root ts cfg visited))) = []
   \<and> length (fst (checkTransitiveImports rt filePath files root ts cfg visited))
        \<le> (case map_of files filePath of
              None \<Rightarrow> 0
            | Some content \<Rightarrow> (case parseImports rt filePath content of None \<Rightarrow> 0 | Some imps \<Rightarrow> length imps))
   \<and> (isUiCandidatePath cfg rel \<and> map_of files filePath = Some content \<and> content \<noteq> [] \<longrightarrow>
        (\<exists>rep. analyzeFile rt filePath rel files root ts cfg = Some rep))"
proof -
  have a: "filePath \<in> visited \<longrightarrow>
      checkTransitiveImports rt filePath files root ts cfg visited = ([], visited)"
    by (simp add: checkTransitiveImports_def)
  have b: "filePath \<notin> visited \<longrightarrow>
      snd (checkTransitiveImports rt filePath files root ts cfg visited) = insert filePath visited"
    by (simp add: checkTransitiveImports_def Let_def split: option.splits)
  have m: "filePath \<in> snd (checkTransitiveImports rt filePath files root ts cfg visited)"
    using b by (cases "filePath \<in> visited") (auto simp: checkTransitiveImports_def)
  have c: "fst (checkTransitiveImports rt filePath files root ts cfg
            (snd (checkTransitiveImports rt filePath files root ts cfg visited))) = []"
    using m by (simp add: checkTransitiveImports_def)
  have d: "length (fst (checkTransitiveImports rt filePath files root ts cfg visited))
        \<le> (case map_of files filePath of
              None \<Rightarrow> 0
            | Some content \<Rightarrow> (case parseImports rt filePath content of None \<Rightarrow> 0 | Some imps \<Rightarrow> length imps))"
    by (simp add: checkTransitiveImports_def Let_def transitiveLoop_length split: option.splits)
  have e: "isUiCandidatePath cfg rel \<and> map_of files filePath = Some content \<and> content \<noteq> [] \<longrightarrow>
        (\<exists>rep. analyzeFile rt filePath rel files root ts cfg = Some rep)"
    by (simp add: analyzeFile_def Let_def split: prod.splits)
  from a b c d e show ?thesis by blast
qed

text \<open>
  Claim C6. The code does not keep each file to one analysis per traversal. The visited set
  is handed to \<^verbatim>\<open>analyzeFileImports\<close>, which never reads it: a helper imported twice is
  analysed for each of the two imports and gives two transitive reasons (score 30), and a
  file that imports itself is analysed again while it is in the visited set and gets a
  transitive reason through itself. The traversal itself ends: the visited set after it
  holds the analysed file only.
\<close>

theorem target_analysed_per_edge:
  "checkTransitiveImports twiceRuntime ''/p/ui/twice.tsx'' twiceFiles ''/p'' noTsConfig projectConfig {}
     = ([helperReason, helperReason], {''/p/ui/twice.tsx''})
   \<and> analyzeFile twiceRuntime ''/p/ui/twice.tsx'' ''ui/twice.tsx'' twiceFiles ''/p'' noTsConfig projectConfig
     = Some \<lparr> report_path = ''ui/twice.tsx'', isUiCandidate = True, purity = Impure, score = 30,
                reasons = [helperReason, helperReason] \<rparr>
   \<and> checkTransitiveImports twiceRuntime ''/p/ui/self.tsx'' twiceFiles ''/p'' noTsConfig projectConfig {}
     = ([\<lparr> reason_type = Transitive, reason_importPath = ''./self'',
            reason_resolvedPath = Some ''/p/ui/self.tsx'', reason_line = None,
            reason_message = ''Transitive dependency via '' @ quoted ''./self''
                             @ '' imports business logic'' \<rparr>],
        {''/p/ui/self.tsx''})"
  by (simp add: fixture_defs scenario_defs analyzer_defs)

subsection \<open>Direct and transitive reasons of a report\<close>

lemma firstMatch_types:
  "firstMatch cfg imp resolved = Some r \<Longrightarrow> reason_type r \<noteq> Transitive"
  by (auto simp: firstMatch_def split: if_splits)

lemma analyzeImportsLoop_types:
  "r \<in> set (analyzeImportsLoop rt cfg ts root dir imps) \<Longrightarrow> reason_type r \<noteq> Transitive"
proof (induction imps)
  case Nil
  then show ?case by simp
next
  case (Cons imp imps)
  show ?case
  proof (cases "classifyImport rt cfg ts root dir imp")
    case (Inl e)
    with Cons.prems show ?thesis by simp
  next
    case (Inr res)
    from classifyImport_Inr[OF Inr] firstMatch_types
    have "\<And>x. res = Some x \<Longrightarrow> reason_type x \<noteq> Transitive" by metis
    with Cons Inr show ?thesis by (cases res) auto
  qed
qed

lemma analyzeFileImports_types:
  "r \<in> set (analyzeFileImports rt fp files root ts cfg visited) \<Longrightarrow> reason_type r \<noteq> Transitive"
  by (auto simp: analyzeFileImports_def Let_def dest: analyzeImportsLoop_types split: option.splits if_splits)

lemma checkTransitiveImports_types:
  "r \<in> set (fst (checkTransitiveImports rt fp files root ts cfg visited)) \<Longrightarrow> reason_type r = Transitive"
  by (auto simp: checkTransitiveImports_def Let_def dest: transitiveLoop_types split: option.splits if_splits)

lemma dataFetchingReasons_types:
  "r \<in> set (dataFetchingReasons ps content) \<Longrightarrow> reason_type r = DataFetching"
  by (induction ps) (auto split: if_splits)

lemma dataFetchingReasons_length: "length (dataFetchingReasons ps content) \<le> 1"
  by (induction ps) auto

text \<open>
  Claim C1, as stated, fails: \<^verbatim>\<open>analyzeFile\<close> runs the transitive check whatever the direct
  check found. \<^verbatim>\<open>/p/ui/card.tsx\<close> imports a forbidden module and a helper that imports one; its
  report carries a forbidden-import reason and a transitive reason.
\<close>

theorem analyzeFile_direct_and_transitive:
  "analyzeFile projectRuntime ''/p/ui/card.tsx'' ''ui/card.tsx'' projectFiles ''/p'' noTsConfig projectConfig =
   Some \<lparr> report_path = ''ui/card.tsx'', isUiCandidate = True, purity = Impure, score = 45,
     reasons =
       [\<lparr> reason_type = ForbiddenImport, reason_importPath = ''@/lib/api'',
           reason_resolvedPath = None, reason_line = Some 1,
           reason_message = ''Forbidden import: '' @ quoted ''@/lib/api'' \<rparr>,
        \<lparr> reason_type = Transitive, reason_importPath = ''./helper'',
           reason_resolvedPath = Some ''/p/ui/helper.ts'', reason_line = None,
           reason_message = ''Transitive dependency via '' @ quoted ''./helper''
                            @ '' imports business logic'' \<rparr>] \<rparr>"
  using card_report by (simp add: cardReport_def)

text \<open>
  Claim C1, amended. For every analyzed file the transitive check runs after the direct
  check, whatever the direct check found: the reasons of the report are the direct reasons,
  then the reasons of the transitive check, then the data-fetching reason if any, and the
  transitive reasons of the report are exactly those the transitive check returns.
\<close>

theorem analyzeFile_transitive_unconditional:
  "analyzeFile rt fp rel files root ts cfg = Some rep \<longrightarrow>
     (\<exists>content. map_of files fp = Some content \<and>
        reasons rep = analyzeFileImports rt fp files root ts cfg {}
                      @ fst (checkTransitiveImports rt fp files root ts cfg {})
                      @ dataFetchingReasons dataFetchingPatterns content)
     \<and> filter (\<lambda>r. reason_type r = Transitive) (reasons rep)
         = fst (checkTransitiveImports rt fp files root ts cfg {})"
proof
  assume a: "analyzeFile rt fp rel files root ts cfg = Some rep"
  from analyzeFile_Some(2)[OF a] obtain content where
    c: "map_of files fp = Some content" and
    r: "reasons rep = analyzeFileImports rt fp files root ts cfg {}
                      @ fst (checkTransitiveImports rt fp files root ts cfg {})
                      @ dataFetchingReasons dataFetchingPatterns content" by blast
  have f1: "filter (\<lambda>r. reason_type r = Transitive) (analyzeFileImports rt fp files root ts cfg {}) = []"
    by (auto simp: filter_empty_conv dest: analyzeFileImports_types)
  have f2: "filter (\<lambda>r. reason_type r = Transitive) (fst (checkTransitiveImports rt fp files root ts cfg {}))
            = fst (checkTransitiveImports rt fp files root ts cfg {})"
    by (auto simp: filter_id_conv dest: checkTransitiveImports_types)
  have f3: "filter (\<lambda>r. reason_type r = Transitive) (dataFetchingReasons dataFetchingPatterns content) = []"
    by (auto simp: filter_empty_conv dest: dataFetchingReasons_types)
  show "(\<exists>content. map_of files fp = Some content \<and>
        reasons rep = analyzeFileImports rt fp files root ts cfg {}
                      @ fst (checkTransitiveImports rt fp files root ts cfg {})
                      @ dataFetchingReasons dataFetchingPatterns content)
     \<and> filter (\<lambda>r. reason_type r = Transitive) (reasons rep)
         = fst (checkTransitiveImports rt fp files root ts cfg {})"
    using c r f1 f2 f3 by simp
qed

theorem analyzeFile_transitive_unconditional_witness:
  "analyzeFile projectRuntime ''/p/ui/card.tsx'' ''ui/card.tsx'' projectFiles ''/p'' noTsConfig projectConfig
     = Some cardReport
   \<and> fst (checkTransitiveImports projectRuntime ''/p/ui/card.tsx'' projectFiles ''/p'' noTsConfig projectConfig {})
     = [reasons cardReport ! 1]"
proof -
  from analyzeFile_transitive_unconditional[of projectRuntime "''/p/ui/card.tsx''" "''ui/card.tsx''"
      projectFiles "''/p''" noTsConfig projectConfig cardReport] card_report
  have "filter (\<lambda>r. reason_type r = Transitive) (reasons cardReport)
         = fst (checkTransitiveImports projectRuntime ''/p/ui/card.tsx'' projectFiles ''/p'' noTsConfig projectConfig {})"
    by blast
  moreover have "filter (\<lambda>r. reason_type r = Transitive) (reasons cardReport) = [reasons cardReport ! 1]"
    by (simp add: cardReport_def)
  ultimately show ?thesis using card_report by simp
qed

subsection \<open>Path alias resolution\<close>






subsection \<open>Report mapping\<close>

lemma buildReports_Some:
  "buildReports rt files root ts cfg todo reports k = Some rep \<Longrightarrow>
     reports k = Some rep \<or>
     (\<exists>(fp, c)\<in>set todo. relative rt root fp = k \<and> analyzeFile rt fp k files root ts cfg = Some rep)"
proof (induction todo arbitrary: reports)
  case Nil
  then show ?case by simp
next
  case (Cons e todo)
  obtain fp c where e: "e = (fp, c)" by (cases e)
  show ?case
  proof (cases "analyzeFile rt fp (relative rt root fp) files root ts cfg")
    case None
    with Cons e show ?thesis by (auto simp: Let_def)
  next
    case (Some r)
    with Cons.prems e have "buildReports rt files root ts cfg todo (reports(relative rt root fp \<mapsto> r)) k = Some rep"
      by (simp add: Let_def)
    from Cons.IH[OF this] Some e show ?thesis by (auto split: if_splits)
  qed
qed

lemma analyzeImportBoundaries_Some:
  "analyzeImportBoundaries rt files root cfg k = Some rep \<Longrightarrow>
     \<exists>(fp, c)\<in>set files. relative rt root fp = k
        \<and> analyzeFile rt fp k files root (loadTsConfig rt root) cfg = Some rep"
  using buildReports_Some[of rt files root "loadTsConfig rt root" cfg files Map.empty k rep]
  by (auto simp: analyzeImportBoundaries_def split: if_splits)

text \<open>
  Every key of the mapping returned by \<^verbatim>\<open>analyzeImportBoundaries\<close> passes the test of
  \<^verbatim>\<open>analyzeFile\<close>: it begins with the name of a UI-candidate directory.
\<close>

lemma non_candidate_excluded:
  "\<not> isUiCandidatePath cfg rel \<Longrightarrow> analyzeImportBoundaries rt files root cfg rel = None"
proof (rule ccontr)
  assume n: "\<not> isUiCandidatePath cfg rel" and "analyzeImportBoundaries rt files root cfg rel \<noteq> None"
  then obtain rep where "analyzeImportBoundaries rt files root cfg rel = Some rep" by auto
  from analyzeImportBoundaries_Some[OF this] obtain fp where
    "analyzeFile rt fp rel files root (loadTsConfig rt root) cfg = Some rep" by auto
  from analyzeFile_Some(1)[OF this] n show False by simp
qed

text \<open>
  Claim C8. The code reports files that are under no UI-candidate directory. The test is
  \<^verbatim>\<open>relativePath.startsWith(dir) || relativePath.startsWith(dir + "/")\<close>, whose first
  disjunct makes the second one idle: with the candidate directory \<^verbatim>\<open>ui\<close>, the files
  \<^verbatim>\<open>ui-legacy/old.tsx\<close> and \<^verbatim>\<open>uix.ts\<close> are outside it and both get an entry.
\<close>

theorem sibling_of_candidate_dir_reported:
  "uiCandidateDirs projectConfig = [''ui'']
   \<and> analyzeImportBoundaries siblingRuntime siblingFiles ''/p'' projectConfig ''ui-legacy/old.tsx''
     = Some \<lparr> report_path = ''ui-legacy/old.tsx'', isUiCandidate = True, purity = Pure, score = 0,
                reasons = [] \<rparr>
   \<and> analyzeImportBoundaries siblingRuntime siblingFiles ''/p'' projectConfig ''uix.ts''
     = Some \<lparr> report_path = ''uix.ts'', isUiCandidate = True, purity = Pure, score = 0, reasons = [] \<rparr>"
  by (simp add: analyzeImportBoundaries_def loadTsConfig_def fixture_defs scenario_defs analyzer_defs)

text \<open>
  Claim C9. A file of the content map whose text is empty gets no report from
  \<^verbatim>\<open>analyzeFile\<close>, and its relative path is not a key of the mapping returned by
  \<^verbatim>\<open>analyzeImportBoundaries\<close> (no other file of the map having the same relative path),
  also when the path is under a UI-candidate directory.
\<close>

theorem empty_file_no_report:
  assumes "distinct (map fst files)" and "(fp, []) \<in> set files"
    and "\<forall>(fp', c)\<in>set files. fp' \<noteq> fp \<longrightarrow> relative rt root fp' \<noteq> relative rt root fp"
  shows "analyzeFile rt fp rel files root ts cfg = None
         \<and> analyzeImportBoundaries rt files root cfg (relative rt root fp) = None"
proof -
  from assms(1,2) have m: "map_of files fp = Some []" by simp
  then have a: "analyzeFile rt fp rel' files root ts' cfg = None" for rel' ts'
    by (simp add: analyzeFile_def)
  have b: "analyzeImportBoundaries rt files root cfg (relative rt root fp) = None"
  proof (rule ccontr)
    assume "analyzeImportBoundaries rt files root cfg (relative rt root fp) \<noteq> None"
    then obtain rep where "analyzeImportBoundaries rt files root cfg (relative rt root fp) = Some rep" by auto
    from analyzeImportBoundaries_Some[OF this] obtain fp' c where
      in': "(fp', c) \<in> set files" and rel: "relative rt root fp' = relative rt root fp"
      and an: "analyzeFile rt fp' (relative rt root fp) files root (loadTsConfig rt root) cfg = Some rep"
      by auto
    from assms(3) in' rel have "fp' = fp" by auto
    with an a show False by simp
  qed
  from a b show ?thesis by simp
qed

theorem empty_file_no_report_witness:
  "isUiCandidatePath projectConfig ''ui/empty.tsx''
   \<and> map_of projectFiles ''/p/ui/empty.tsx'' = Some []
   \<and> analyzeImportBoundaries projectRuntime projectFiles ''/p'' projectConfig ''ui/empty.tsx'' = None"
proof -
  have d: "distinct (map fst projectFiles)" by (simp add: projectFiles_def)
  have m: "(''/p/ui/empty.tsx'', []) \<in> set projectFiles" by (simp add: projectFiles_def)
  have u: "\<forall>(fp', c)\<in>set projectFiles. fp' \<noteq> ''/p/ui/empty.tsx'' \<longrightarrow>
             relative projectRuntime ''/p'' fp' \<noteq> relative projectRuntime ''/p'' ''/p/ui/empty.tsx''"
    by (simp add: projectFiles_def projectRuntime_def)
  from empty_file_no_report[OF d m u, of "''ui/empty.tsx''" noTsConfig projectConfig]
  show ?thesis
    by (simp add: isUiCandidatePath_def projectConfig_def projectFiles_def projectRuntime_def)
qed

end
